theory Spec2Isabelle
  imports Main
begin

section \<open>Data model of main.go\<close>

text \<open>
  \<^verbatim>\<open>DeliveryRoute\<close> and \<^verbatim>\<open>NotificationType\<close> are Go string types with two named
  constants each; any other string is a value of the type as well.
\<close>

type_synonym DeliveryRoute = string
type_synonym NotificationType = string

definition Email :: DeliveryRoute where "Email = ''email''"
definition System :: DeliveryRoute where "System = ''system''"
definition Instant :: NotificationType where "Instant = ''instant''"
definition Batch :: NotificationType where "Batch = ''batch''"

text \<open>
  A JSON text after parsing. A number keeps its literal; an object keeps its members in
  the order of the text, duplicates included.
\<close>

datatype json =
    JNull
  | JBool bool
  | JNumber string
  | JString string
  | JArray "json list"
  | JObject "(string \<times> json) list"

text \<open>
  \<^verbatim>\<open>Notification\<close>. The field \<^verbatim>\<open>Metadata\<close> is a \<^verbatim>\<open>json.RawMessage\<close>: the bytes of the
  member \<^verbatim>\<open>metadata\<close> of a request body that \<^verbatim>\<open>ShouldBindJSON\<close> has accepted, hence a
  well-formed JSON text (\<open>Some\<close> of its parse), or no bytes at all when the body has no
  such member (\<open>None\<close>).
\<close>

record Notification =
  Date :: string
  EventName :: string
  DeliveryRoute :: DeliveryRoute
  NotificationType :: NotificationType
  Metadata :: "json option"

record EmailMetadata =
  EmailAddress :: string
  EmailBody :: string

record SystemMetadata =
  UUID :: string
  Body :: string

text \<open>A Go \<^verbatim>\<open>error\<close>: \<open>None\<close> is \<^verbatim>\<open>nil\<close>, \<open>Some msg\<close> an error.\<close>

type_synonym error = "string option"

text \<open>What \<^verbatim>\<open>c.JSON(status, gin.H{key: message})\<close> writes.\<close>

datatype response = JSON (status: nat) (key: string) (message: string)

definition StatusOK :: nat where "StatusOK = 200"
definition StatusBadRequest :: nat where "StatusBadRequest = 400"
definition StatusInternalServerError :: nat where "StatusInternalServerError = 500"

subsection \<open>The collaborators and the configuration\<close>

text \<open>
  \<^verbatim>\<open>main\<close> holds three variables that its closures read: \<^verbatim>\<open>emailService\<close>,
  \<^verbatim>\<open>notificationRepo\<close> and \<^verbatim>\<open>batchAmount\<close>. The source sets the first from the
  environment and leaves the setting of the other two out ("Same logic as above"), so all
  three are parameters here. Both collaborators are interfaces, so an implementation may
  answer differently from call to call: each gets the calls made to it so far.
  \<^verbatim>\<open>batchAmount\<close> is a Go \<^verbatim>\<open>int\<close>; it is only compared with a slice length.
\<close>

record env =
  emailService :: "(string \<times> string) list \<Rightarrow> string \<Rightarrow> string \<Rightarrow> error"
  notificationRepo :: "Notification list \<Rightarrow> Notification \<Rightarrow> error"
  batchAmount :: int

text \<open>The implementations of \<^verbatim>\<open>SendEmail\<close> and \<^verbatim>\<open>Insert\<close> given in the source.\<close>

definition SMTPService :: "(string \<times> string) list \<Rightarrow> string \<Rightarrow> string \<Rightarrow> error" where
  "SMTPService calls address body = None"

definition OtherProtocolService ::
  "(string \<times> string) list \<Rightarrow> string \<Rightarrow> string \<Rightarrow> error" where
  "OtherProtocolService calls address body = None"

definition NotificationRepositoryImpl :: "Notification list \<Rightarrow> Notification \<Rightarrow> error" where
  "NotificationRepositoryImpl calls item = None"

subsection \<open>The state\<close>

text \<open>
  \<^verbatim>\<open>notificationsMap\<close> is the map of \<^verbatim>\<open>main\<close>. The two other fields record the calls
  made to the collaborators, in order: the arguments of every \<^verbatim>\<open>SendEmail\<close> and of
  every \<^verbatim>\<open>Insert\<close>.
\<close>

record state =
  notificationsMap :: "string \<rightharpoonup> EmailMetadata list"
  sent :: "(string \<times> string) list"
  inserted :: "Notification list"

text \<open>Reading a Go map at a key it does not hold gives the nil slice, of length 0.\<close>

definition index :: "(string \<rightharpoonup> EmailMetadata list) \<Rightarrow> string \<Rightarrow> EmailMetadata list" where
  "index m k = (case m k of None \<Rightarrow> [] | Some q \<Rightarrow> q)"

section \<open>Decoding the metadata\<close>

text \<open>
  \<^verbatim>\<open>json.Unmarshal(notification.Metadata, &emailMetadata)\<close> is the standard library's.
  Into a struct of two string fields it behaves as follows. No bytes: a syntax error.
  \<^verbatim>\<open>null\<close>: nothing is stored and there is no error. An object: each member, in order,
  is matched with a field by its key, exactly or else after case folding; a member that
  matches no field is skipped; a matched member stores a string, stores nothing for
  \<^verbatim>\<open>null\<close>, and is a type error for any other value. Any other JSON value is a type
  error. A field no member stores keeps the value it had, here the empty string of the
  freshly declared variable. The call returns an error when there was one.
\<close>

text \<open>
  Case folding of a key (UTF-8 bytes): an ASCII letter folds to its capital, and so do the
  two other letters of Unicode whose simple fold is an ASCII letter, U+017F (long s) and
  U+212A (Kelvin sign); nothing else becomes ASCII.
\<close>

fun foldName :: "string \<Rightarrow> string" where
  "foldName [] = []"
| "foldName (c # cs) =
     (if c = CHR 0xC5 \<and> take 1 cs = [CHR 0xBF] then CHR ''S'' # foldName (drop 1 cs)
      else if c = CHR 0xE2 \<and> take 2 cs = [CHR 0x84, CHR 0xAA] then CHR ''K'' # foldName (drop 2 cs)
      else if (97::nat) \<le> of_char c \<and> of_char c \<le> (122::nat)
        then char_of (of_char c - (32::nat)) # foldName cs
      else c # foldName cs)"

datatype field = FEmailAddress | FEmailBody

definition lookupField :: "string \<Rightarrow> field option" where
  "lookupField k =
     (if k = ''emailAddress'' then Some FEmailAddress
      else if k = ''emailBody'' then Some FEmailBody
      else if foldName k = foldName ''emailAddress'' then Some FEmailAddress
      else if foldName k = foldName ''emailBody'' then Some FEmailBody
      else None)"

definition setField :: "field \<Rightarrow> string \<Rightarrow> EmailMetadata \<Rightarrow> EmailMetadata" where
  "setField f s em =
     (case f of FEmailAddress \<Rightarrow> em\<lparr>EmailAddress := s\<rparr> | FEmailBody \<Rightarrow> em\<lparr>EmailBody := s\<rparr>)"

text \<open>The members of an object, in order; the flag says whether a type error was met.\<close>

fun object :: "(string \<times> json) list \<Rightarrow> EmailMetadata \<times> bool \<Rightarrow> EmailMetadata \<times> bool" where
  "object [] acc = acc"
| "object ((k, v) # ms) (em, bad) =
     (case lookupField k of
        None \<Rightarrow> object ms (em, bad)
      | Some f \<Rightarrow>
          (case v of
             JString s \<Rightarrow> object ms (setField f s em, bad)
           | JNull \<Rightarrow> object ms (em, bad)
           | _ \<Rightarrow> object ms (em, True)))"

definition Unmarshal :: "json option \<Rightarrow> EmailMetadata option" where
  "Unmarshal raw =
     (let zero = \<lparr>EmailAddress = [], EmailBody = []\<rparr> in
      case raw of
        None \<Rightarrow> None
      | Some JNull \<Rightarrow> Some zero
      | Some (JObject ms) \<Rightarrow>
          (case object ms (zero, False) of (em, bad) \<Rightarrow> if bad then None else Some em)
      | Some _ \<Rightarrow> None)"

section \<open>The handler of POST /notification\<close>

text \<open>The loop \<^verbatim>\<open>for _, email := range q { emailBody += email.EmailBody + "\n" }\<close>.\<close>

fun joinBodies :: "string \<Rightarrow> EmailMetadata list \<Rightarrow> string" where
  "joinBodies emailBody [] = emailBody"
| "joinBodies emailBody (email # q) = joinBodies (emailBody @ EmailBody email @ [CHR 0x0A]) q"

definition SendEmail :: "env \<Rightarrow> string \<Rightarrow> string \<Rightarrow> state \<Rightarrow> error \<times> state" where
  "SendEmail e address body st =
     (emailService e (sent st) address body, st\<lparr>sent := sent st @ [(address, body)]\<rparr>)"

definition Insert :: "env \<Rightarrow> Notification \<Rightarrow> state \<Rightarrow> error \<times> state" where
  "Insert e item st =
     (notificationRepo e (inserted st) item, st\<lparr>inserted := inserted st @ [item]\<rparr>)"

definition received :: response where
  "received = JSON StatusOK ''message'' ''Notification received''"

text \<open>
  Lines 73 to 120: the switch on the delivery route, from a notification that was bound.
  The inner switch on the notification type has no default: any type other than
  \<^verbatim>\<open>instant\<close> and \<^verbatim>\<open>batch\<close> leaves it and reaches the final answer.
\<close>

definition dispatch :: "env \<Rightarrow> Notification \<Rightarrow> state \<Rightarrow> response \<times> state" where
  "dispatch e notification st =
     (if DeliveryRoute notification = Email then
        (case Unmarshal (Metadata notification) of
           None \<Rightarrow> (JSON StatusBadRequest ''error'' ''Invalid email metadata'', st)
         | Some emailMetadata \<Rightarrow>
             if NotificationType notification = Instant then
               (case SendEmail e (EmailAddress emailMetadata) (EmailBody emailMetadata) st of
                  (Some err, st1) \<Rightarrow>
                    (JSON StatusInternalServerError ''error'' ''Failed to send email'', st1)
                | (None, st1) \<Rightarrow> (received, st1))
             else if NotificationType notification = Batch then
               (let k = EventName notification;
                    q = index (notificationsMap st) k @ [emailMetadata];
                    st1 = st\<lparr>notificationsMap := (notificationsMap st)(k \<mapsto> q)\<rparr>
                in
                  if int (length q) = batchAmount e then
                    (case SendEmail e (EmailAddress (q ! 0)) (joinBodies [] q) st1 of
                       (Some err, st2) \<Rightarrow>
                         (JSON StatusInternalServerError ''error'' ''Failed to send email'', st2)
                     | (None, st2) \<Rightarrow>
                         (received,
                          st2\<lparr>notificationsMap := (notificationsMap st2)(k \<mapsto> [])\<rparr>))
                  else (received, st1))
             else (received, st))
      else if DeliveryRoute notification = System then
        (case Insert e notification st of
           (Some err, st1) \<Rightarrow>
             (JSON StatusInternalServerError ''error'' ''Failed to insert notification'', st1)
         | (None, st1) \<Rightarrow> (received, st1))
      else (JSON StatusBadRequest ''error'' ''Invalid notification type'', st))"

text \<open>
  The whole handler: \<^verbatim>\<open>ShouldBindJSON\<close> either fails with a message (\<open>Inl\<close>) or binds the
  body to a notification (\<open>Inr\<close>).
\<close>

definition postNotification ::
  "env \<Rightarrow> string + Notification \<Rightarrow> state \<Rightarrow> response \<times> state" where
  "postNotification e bound st =
     (case bound of
        Inl err \<Rightarrow> (JSON StatusBadRequest ''error'' err, st)
      | Inr notification \<Rightarrow> dispatch e notification st)"

text \<open>A sequence of requests handled one after the other: the answers and the last state.\<close>

fun run :: "env \<Rightarrow> Notification list \<Rightarrow> state \<Rightarrow> response list \<times> state" where
  "run e [] st = ([], st)"
| "run e (n # ns) st =
     (case dispatch e n st of (r, st1) \<Rightarrow>
        (case run e ns st1 of (rs, st2) \<Rightarrow> (r # rs, st2)))"

section \<open>Properties of a sequence of requests\<close>

text \<open>
  A flush send fails: a batch notification is answered with the failure of
  \<^verbatim>\<open>SendEmail\<close>. On the batch path the only call of \<^verbatim>\<open>SendEmail\<close> is the one of the flush.
\<close>

definition flushFails :: "env \<Rightarrow> Notification \<Rightarrow> state \<Rightarrow> bool" where
  "flushFails e n st \<longleftrightarrow>
     NotificationType n = Batch \<and>
     fst (dispatch e n st) = JSON StatusInternalServerError ''error'' ''Failed to send email''"

text \<open>
  No flush send fails while the requests are handled one after the other from a state.
\<close>

fun flushesSucceed :: "env \<Rightarrow> Notification list \<Rightarrow> state \<Rightarrow> bool" where
  "flushesSucceed e [] st = True"
| "flushesSucceed e (n # ns) st =
     (\<not> flushFails e n st \<and> flushesSucceed e ns (snd (dispatch e n st)))"

section \<open>Concrete requests, configurations and states\<close>

text \<open>
  The state of \<^verbatim>\<open>main\<close> before the first request: the map just made, no call so far.
\<close>

definition initial :: state where
  "initial = \<lparr>notificationsMap = Map.empty, sent = [], inserted = []\<rparr>"

text \<open>
  A configuration with the two implementations of the source, and one whose email service
  returns an error on every call.
\<close>

definition config :: "int \<Rightarrow> env" where
  "config n = \<lparr>emailService = SMTPService, notificationRepo = NotificationRepositoryImpl, batchAmount = n\<rparr>"

definition refusing :: "(string \<times> string) list \<Rightarrow> string \<Rightarrow> string \<Rightarrow> error" where
  "refusing calls address body = Some ''connection refused''"

definition unreliable :: "int \<Rightarrow> env" where
  "unreliable n = \<lparr>emailService = refusing, notificationRepo = NotificationRepositoryImpl, batchAmount = n\<rparr>"

text \<open>
  A metadata object of the email shape, and notifications of the event \<^verbatim>\<open>promo\<close>.
\<close>

definition emailShape :: "string \<Rightarrow> string \<Rightarrow> json option" where
  "emailShape a b = Some (JObject [(''emailAddress'', JString a), (''emailBody'', JString b)])"

definition promo :: "DeliveryRoute \<Rightarrow> NotificationType \<Rightarrow> json option \<Rightarrow> Notification" where
  "promo r t m = \<lparr>Date = ''2024-05-01'', EventName = ''promo'', DeliveryRoute = r, NotificationType = t, Metadata = m\<rparr>"

definition promoHi :: Notification where "promoHi = promo Email Batch (emailShape ''a@x.com'' ''hi'')"

definition promoBye :: Notification where "promoBye = promo Email Batch (emailShape ''b@x.com'' ''bye'')"

definition instantHi :: Notification where
  "instantHi = promo Email Instant (emailShape ''a@x.com'' ''hi'')"

definition weeklyHi :: Notification where
  "weeklyHi = promo Email ''weekly'' (emailShape ''a@x.com'' ''hi'')"

definition systemHi :: Notification where
  "systemHi = promo System Instant (emailShape ''a@x.com'' ''hi'')"

definition noBodyHi :: Notification where
  "noBodyHi = promo Email Instant (Some (JObject [(''emailAddress'', JString ''a@x.com'')]))"

section \<open>Facts about one request\<close>

lemmas fixture_defs = emailShape_def initial_def config_def refusing_def promo_def unreliable_def
  promoHi_def promoBye_def instantHi_def weeklyHi_def systemHi_def noBodyHi_def SMTPService_def
  NotificationRepositoryImpl_def

lemmas constant_defs = Email_def System_def Instant_def Batch_def StatusOK_def StatusBadRequest_def
  StatusInternalServerError_def received_def

lemmas handler_defs = dispatch_def SendEmail_def Insert_def Unmarshal_def lookupField_def setField_def
  index_def Let_def

lemma Instant_neq_Batch: "Instant \<noteq> Batch" "Email \<noteq> System"
  by (simp_all add: Instant_def Batch_def Email_def System_def)

lemma index_upd: "index (m(k \<mapsto> q)) k' = (if k' = k then q else index m k')"
  by (simp add: index_def)

lemma joinBodies_concat:
  "joinBodies acc q = acc @ concat (map (\<lambda>m. EmailBody m @ [CHR 0x0A]) q)"
  by (induction q arbitrary: acc) simp_all

lemma dispatch_instant:
  assumes "DeliveryRoute n = Email" "NotificationType n = Instant"
    and "Unmarshal (Metadata n) = Some em"
  shows "dispatch e n st =
    (if emailService e (sent st) (EmailAddress em) (EmailBody em) = None then received
     else JSON StatusInternalServerError ''error'' ''Failed to send email'',
     st\<lparr>sent := sent st @ [(EmailAddress em, EmailBody em)]\<rparr>)"
  using assms by (simp add: dispatch_def SendEmail_def split: option.split)

lemma dispatch_accumulate:
  assumes "DeliveryRoute n = Email" "NotificationType n = Batch"
    and "Unmarshal (Metadata n) = Some em"
    and "int (length (index (notificationsMap st) (EventName n))) + 1 \<noteq> batchAmount e"
  shows "dispatch e n st =
    (received,
     st\<lparr>notificationsMap :=
          (notificationsMap st)(EventName n \<mapsto> index (notificationsMap st) (EventName n) @ [em])\<rparr>)"
  using assms Instant_neq_Batch by (simp add: dispatch_def Let_def)

lemma dispatch_flush:
  assumes "DeliveryRoute n = Email" "NotificationType n = Batch"
    and "Unmarshal (Metadata n) = Some em"
    and "int (length (index (notificationsMap st) (EventName n))) + 1 = batchAmount e"
    and "q = index (notificationsMap st) (EventName n) @ [em]"
  shows "dispatch e n st =
    (if emailService e (sent st) (EmailAddress (hd q)) (joinBodies [] q) = None
     then (received,
           st\<lparr>notificationsMap := (notificationsMap st)(EventName n \<mapsto> []),
               sent := sent st @ [(EmailAddress (hd q), joinBodies [] q)]\<rparr>)
     else (JSON StatusInternalServerError ''error'' ''Failed to send email'',
           st\<lparr>notificationsMap := (notificationsMap st)(EventName n \<mapsto> q),
               sent := sent st @ [(EmailAddress (hd q), joinBodies [] q)]\<rparr>))"
proof -
  have "q ! 0 = hd q" using assms(5) by (simp add: hd_conv_nth)
  moreover have "int (length q) = batchAmount e" using assms(4,5) by simp
  ultimately show ?thesis
    using assms(1,2,3,5) Instant_neq_Batch
    by (simp add: dispatch_def Let_def SendEmail_def split: option.split)
qed

lemma dispatch_system:
  assumes "DeliveryRoute n = System"
  shows "dispatch e n st =
    (if notificationRepo e (inserted st) n = None then received
     else JSON StatusInternalServerError ''error'' ''Failed to insert notification'',
     st\<lparr>inserted := inserted st @ [n]\<rparr>)"
  using assms Instant_neq_Batch by (simp add: dispatch_def Insert_def split: option.split)

lemma dispatch_other_type:
  assumes "DeliveryRoute n = Email" "NotificationType n \<noteq> Instant" "NotificationType n \<noteq> Batch"
    and "Unmarshal (Metadata n) = Some em"
  shows "dispatch e n st = (received, st)"
  using assms by (simp add: dispatch_def)

lemma dispatch_bad_metadata:
  assumes "DeliveryRoute n = Email" "Unmarshal (Metadata n) = None"
  shows "dispatch e n st = (JSON StatusBadRequest ''error'' ''Invalid email metadata'', st)"
  using assms by (simp add: dispatch_def)

lemma dispatch_other_route:
  assumes "DeliveryRoute n \<noteq> Email" "DeliveryRoute n \<noteq> System"
  shows "dispatch e n st = (JSON StatusBadRequest ''error'' ''Invalid notification type'', st)"
  using assms by (simp add: dispatch_def)

lemma dispatch_map_other_key:
  "k \<noteq> EventName n \<Longrightarrow> notificationsMap (snd (dispatch e n st)) k = notificationsMap st k"
  by (simp add: dispatch_def SendEmail_def Insert_def Let_def split: option.split)

lemma dispatch_map_unchanged:
  "\<not> (DeliveryRoute n = Email \<and> NotificationType n = Batch \<and> Unmarshal (Metadata n) \<noteq> None)
   \<Longrightarrow> notificationsMap (snd (dispatch e n st)) = notificationsMap st"
  by (auto simp add: dispatch_def SendEmail_def Insert_def Let_def split: option.split)

lemma run_Cons:
  "snd (run e (n # ns) st) = snd (run e ns (snd (dispatch e n st)))"
  "fst (run e (n # ns) st) = fst (dispatch e n st) # fst (run e ns (snd (dispatch e n st)))"
  by (simp_all split: prod.split)

section \<open>Batched email\<close>

lemma run_accumulate:
  assumes "\<forall>n\<in>set ns. DeliveryRoute n = Email \<and> NotificationType n = Batch \<and> EventName n = k"
    and "map (\<lambda>n. Unmarshal (Metadata n)) ns = map Some ems"
    and "int (length (index (notificationsMap st) k)) + int (length ns) < batchAmount e"
  shows "run e ns st =
    (replicate (length ns) received,
     if ns = [] then st
     else st\<lparr>notificationsMap :=
               (notificationsMap st)(k \<mapsto> index (notificationsMap st) k @ ems)\<rparr>)"
  using assms
proof (induction ns arbitrary: st ems)
  case Nil
  then show ?case by simp
next
  case (Cons n ns)
  from Cons.prems(2) obtain em ems' where ems: "ems = em # ems'"
    and em: "Unmarshal (Metadata n) = Some em"
    and rest: "map (\<lambda>n. Unmarshal (Metadata n)) ns = map Some ems'"
    by (cases ems) auto
  let ?q = "index (notificationsMap st) k"
  let ?st1 = "st\<lparr>notificationsMap := (notificationsMap st)(k \<mapsto> ?q @ [em])\<rparr>"
  from Cons.prems(1) have n: "DeliveryRoute n = Email" "NotificationType n = Batch" "EventName n = k"
    by simp_all
  have "int (length ?q) + 1 \<noteq> batchAmount e" using Cons.prems(3) by simp
  then have step: "dispatch e n st = (received, ?st1)"
    using dispatch_accumulate [OF n(1,2) em, of st e] n(3) by simp
  have all: "\<forall>n\<in>set ns. DeliveryRoute n = Email \<and> NotificationType n = Batch \<and> EventName n = k"
    using Cons.prems(1) by simp
  have bound: "int (length (index (notificationsMap ?st1) k)) + int (length ns) < batchAmount e"
    using Cons.prems(3) by (simp add: index_upd)
  note ih = Cons.IH [OF all rest bound]
  show ?case using step ems ih rest by (auto simp add: index_upd)
qed

text \<open>
  Claim C1. Let \<open>ns\<close> be \<open>N \<ge> 1\<close> notifications of route email and type batch with the same
  event name \<open>k\<close>, whose metadata decode to \<open>ems\<close>, let \<^verbatim>\<open>batchAmount\<close> be \<open>N\<close> and let
  the queue of \<open>k\<close> be empty. Handled one after the other, the first \<open>N - 1\<close> are answered
  with status 200 and the sender is not called; the last one calls the sender exactly once,
  with the address of the first of the \<open>N\<close> and with the bodies of all \<open>N\<close> in the order of
  arrival, each followed by a newline; its answer is 200 when that call succeeds and 500
  otherwise.
\<close>

theorem nth_batch_email_flushes:
  assumes "ns \<noteq> []" and "batchAmount e = int (length ns)"
    and "\<forall>n\<in>set ns. DeliveryRoute n = Email \<and> NotificationType n = Batch \<and> EventName n = k"
    and "map (\<lambda>n. Unmarshal (Metadata n)) ns = map Some ems"
    and "index (notificationsMap st) k = []"
  shows "fst (run e (butlast ns) st) = replicate (length ns - 1) received \<and>
    sent (snd (run e (butlast ns) st)) = sent st \<and>
    sent (snd (dispatch e (last ns) (snd (run e (butlast ns) st)))) =
      sent st @ [(EmailAddress (hd ems), concat (map (\<lambda>m. EmailBody m @ [CHR 0x0A]) ems))] \<and>
    fst (dispatch e (last ns) (snd (run e (butlast ns) st))) =
      (if emailService e (sent st) (EmailAddress (hd ems))
            (concat (map (\<lambda>m. EmailBody m @ [CHR 0x0A]) ems)) = None
       then received
       else JSON StatusInternalServerError ''error'' ''Failed to send email'')"
proof -
  let ?bs = "butlast ns" and ?n = "last ns"
  let ?st1 = "snd (run e ?bs st)"
  have len: "length ems = length ns" using assms(4) by (metis length_map)
  then have ems_ne: "ems \<noteq> []" using assms(1) by auto
  have dec_b: "map (\<lambda>n. Unmarshal (Metadata n)) ?bs = map Some (butlast ems)"
    using assms(4) by (simp add: map_butlast)
  have dec_l: "Unmarshal (Metadata ?n) = Some (last ems)"
    using assms(1,4) ems_ne by (metis last_map)
  have all_b: "\<forall>n\<in>set ?bs. DeliveryRoute n = Email \<and> NotificationType n = Batch \<and> EventName n = k"
    using assms(3) by (meson in_set_butlastD)
  have nl: "DeliveryRoute ?n = Email" "NotificationType ?n = Batch" "EventName ?n = k"
    using assms(1,3) by simp_all
  have "int (length (index (notificationsMap st) k)) + int (length ?bs) < batchAmount e"
    using assms(1,2,5) by (simp add: Suc_leI)
  from run_accumulate [OF all_b dec_b this]
  have r: "run e ?bs st =
    (replicate (length ?bs) received,
     if ?bs = [] then st
     else st\<lparr>notificationsMap := (notificationsMap st)(k \<mapsto> butlast ems)\<rparr>)"
    using assms(5) by simp
  have q1: "index (notificationsMap ?st1) k = butlast ems"
  proof (cases "?bs = []")
    case True
    then have "length ns = 1" using assms(1)
      by (metis One_nat_def append_butlast_last_id append_Nil length_Cons list.size(3))
    then have "butlast ems = []" using len by (cases ems) auto
    with True r assms(5) show ?thesis by simp
  next
    case False
    with r show ?thesis by (simp add: index_upd)
  qed
  have s1: "sent ?st1 = sent st" using r by (simp split: if_splits)
  have full: "index (notificationsMap ?st1) (EventName ?n) @ [last ems] = ems"
    using q1 nl(3) ems_ne by simp
  have "int (length (index (notificationsMap ?st1) (EventName ?n))) + 1 = batchAmount e"
    using q1 nl(3) len assms(1,2) ems_ne by (simp add: Suc_leI)
  from dispatch_flush [OF nl(1,2) dec_l this full [symmetric]]
  have d: "dispatch e ?n ?st1 =
    (if emailService e (sent ?st1) (EmailAddress (hd ems)) (joinBodies [] ems) = None
     then (received,
           ?st1\<lparr>notificationsMap := (notificationsMap ?st1)(EventName ?n \<mapsto> []),
               sent := sent ?st1 @ [(EmailAddress (hd ems), joinBodies [] ems)]\<rparr>)
     else (JSON StatusInternalServerError ''error'' ''Failed to send email'',
           ?st1\<lparr>notificationsMap := (notificationsMap ?st1)(EventName ?n \<mapsto> ems),
               sent := sent ?st1 @ [(EmailAddress (hd ems), joinBodies [] ems)]\<rparr>))" .
  have "fst (run e ?bs st) = replicate (length ns - 1) received" using r by simp
  moreover note s1
  moreover have "sent (snd (dispatch e ?n ?st1)) =
      sent st @ [(EmailAddress (hd ems), concat (map (\<lambda>m. EmailBody m @ [CHR 0x0A]) ems))]"
    using d s1 by (simp add: joinBodies_concat)
  moreover have "fst (dispatch e ?n ?st1) =
      (if emailService e (sent st) (EmailAddress (hd ems))
            (concat (map (\<lambda>m. EmailBody m @ [CHR 0x0A]) ems)) = None
       then received
       else JSON StatusInternalServerError ''error'' ''Failed to send email'')"
    using d s1 by (simp add: joinBodies_concat)
  ultimately show ?thesis by blast
qed

text \<open>
  The scenario of the specification: \<^verbatim>\<open>batchAmount\<close> 2, bodies \<^verbatim>\<open>hi\<close> then \<^verbatim>\<open>bye\<close>.
\<close>

theorem nth_batch_email_flushes_witness:
  "fst (run (config 2) [promoHi] initial) = [received] \<and>
   sent (snd (run (config 2) [promoHi] initial)) = [] \<and>
   sent (snd (dispatch (config 2) promoBye (snd (run (config 2) [promoHi] initial)))) =
     [(''a@x.com'', ''hi\<newline>bye\<newline>'')] \<and>
   fst (dispatch (config 2) promoBye (snd (run (config 2) [promoHi] initial))) = received"
proof -
  have h1: "[promoHi, promoBye] \<noteq> []" by simp
  have h2: "batchAmount (config 2) = int (length [promoHi, promoBye])" by (simp add: config_def)
  have h3: "\<forall>n\<in>set [promoHi, promoBye].
      DeliveryRoute n = Email \<and> NotificationType n = Batch \<and> EventName n = ''promo''"
    by (simp add: promoHi_def promoBye_def promo_def)
  have h4: "map (\<lambda>n. Unmarshal (Metadata n)) [promoHi, promoBye] =
      map Some [\<lparr>EmailAddress = ''a@x.com'', EmailBody = ''hi''\<rparr>,
                \<lparr>EmailAddress = ''b@x.com'', EmailBody = ''bye''\<rparr>]"
    by (simp add: fixture_defs handler_defs)
  have h5: "index (notificationsMap initial) ''promo'' = []"
    by (simp add: initial_def index_def)
  show ?thesis
    using nth_batch_email_flushes [OF h1 h2 h3 h4 h5]
    by (simp add: initial_def config_def SMTPService_def)
qed

text \<open>
  Claim C2, as amended. When the sender returns an error on the send of a flush (the
  queue of the event, with the new element, has \<^verbatim>\<open>batchAmount\<close> elements), the answer is
  500 and the queue of that event still holds all these elements, the new one included: the
  handler returns before the statement that clears the queue.
\<close>

theorem failed_flush_keeps_queue:
  assumes "DeliveryRoute n = Email" and "NotificationType n = Batch"
    and "Unmarshal (Metadata n) = Some em"
    and "q = index (notificationsMap st) (EventName n) @ [em]"
    and "int (length q) = batchAmount e"
    and "emailService e (sent st) (EmailAddress (hd q))
           (concat (map (\<lambda>m. EmailBody m @ [CHR 0x0A]) q)) \<noteq> None"
  shows "fst (dispatch e n st) = JSON StatusInternalServerError ''error'' ''Failed to send email'' \<and>
    notificationsMap (snd (dispatch e n st)) (EventName n) = Some q \<and> q \<noteq> []"
proof -
  have "int (length (index (notificationsMap st) (EventName n))) + 1 = batchAmount e"
    using assms(4,5) by simp
  from dispatch_flush [OF assms(1,2,3) this assms(4)] assms(4,6)
  show ?thesis by (simp add: joinBodies_concat)
qed

theorem failed_flush_keeps_queue_witness:
  "fst (dispatch (unreliable 2) promoBye (snd (dispatch (unreliable 2) promoHi initial))) =
     JSON 500 ''error'' ''Failed to send email'' \<and>
   notificationsMap (snd (dispatch (unreliable 2) promoBye (snd (dispatch (unreliable 2) promoHi initial))))
     ''promo'' =
     Some [\<lparr>EmailAddress = ''a@x.com'', EmailBody = ''hi''\<rparr>,
           \<lparr>EmailAddress = ''b@x.com'', EmailBody = ''bye''\<rparr>]"
proof -
  let ?st = "snd (dispatch (unreliable 2) promoHi initial)"
  let ?q = "[\<lparr>EmailAddress = ''a@x.com'', EmailBody = ''hi''\<rparr>,
             \<lparr>EmailAddress = ''b@x.com'', EmailBody = ''bye''\<rparr>]"
  have h1: "DeliveryRoute promoBye = Email" by (simp add: promoBye_def promo_def)
  have h2: "NotificationType promoBye = Batch" by (simp add: promoBye_def promo_def)
  have h3: "Unmarshal (Metadata promoBye) = Some \<lparr>EmailAddress = ''b@x.com'', EmailBody = ''bye''\<rparr>"
    by (simp add: fixture_defs handler_defs)
  have h4: "?q = index (notificationsMap ?st) (EventName promoBye) @
      [\<lparr>EmailAddress = ''b@x.com'', EmailBody = ''bye''\<rparr>]"
    by (simp add: fixture_defs handler_defs constant_defs)
  have h5: "int (length ?q) = batchAmount (unreliable 2)" by (simp add: unreliable_def)
  have h6: "emailService (unreliable 2) (sent ?st) (EmailAddress (hd ?q))
      (concat (map (\<lambda>m. EmailBody m @ [CHR 0x0A]) ?q)) \<noteq> None"
    by (simp add: unreliable_def refusing_def)
  show ?thesis
    using failed_flush_keeps_queue [OF h1 h2 h3 h4 h5 h6]
    by (simp add: promoBye_def promo_def StatusInternalServerError_def)
qed

text \<open>
  Claim C2 as stated fails: with \<^verbatim>\<open>batchAmount\<close> 2 and a sender that returns an error, the
  second notification is answered with 500 and the queue of the event is not empty
  afterwards.
\<close>

theorem failed_flush_empties_queue_counterexample:
  "fst (dispatch (unreliable 2) promoBye (snd (dispatch (unreliable 2) promoHi initial))) =
     JSON 500 ''error'' ''Failed to send email'' \<and>
   index (notificationsMap (snd (dispatch (unreliable 2) promoBye (snd (dispatch (unreliable 2) promoHi initial)))))
     ''promo'' \<noteq> []"
  by (simp add: fixture_defs handler_defs constant_defs)

lemma step_keeps_bound:
  assumes "int (length (index (notificationsMap st) k)) \<le> batchAmount e - 1"
    and "\<not> flushFails e n st"
  shows "int (length (index (notificationsMap (snd (dispatch e n st))) k)) \<le> batchAmount e - 1"
proof (cases "DeliveryRoute n = Email \<and> NotificationType n = Batch \<and>
    Unmarshal (Metadata n) \<noteq> None \<and> EventName n = k")
  case False
  then have "notificationsMap (snd (dispatch e n st)) k = notificationsMap st k"
    using dispatch_map_other_key [of k n e st] dispatch_map_unchanged [of n e st] by metis
  with assms(1) show ?thesis by (simp add: index_def)
next
  case True
  then obtain em where n: "DeliveryRoute n = Email" "NotificationType n = Batch"
    "Unmarshal (Metadata n) = Some em" "EventName n = k" by auto
  let ?q = "index (notificationsMap st) (EventName n) @ [em]"
  show ?thesis
  proof (cases "int (length (index (notificationsMap st) (EventName n))) + 1 = batchAmount e")
    case full: True
    have sent_ok: "emailService e (sent st) (EmailAddress (hd ?q)) (joinBodies [] ?q) = None"
      using assms(2) n(2) dispatch_flush [OF n(1,2,3) full refl]
      by (auto simp add: flushFails_def split: if_splits)
    with dispatch_flush [OF n(1,2,3) full refl] n(4) full show ?thesis
      by (simp add: index_upd)
  next
    case False
    with dispatch_accumulate [OF n(1,2,3) False] assms(1) n(4) show ?thesis
      by (simp add: index_upd)
  qed
qed

lemma run_keeps_bound:
  assumes "int (length (index (notificationsMap st) k)) \<le> batchAmount e - 1"
    and "flushesSucceed e ns st"
  shows "int (length (index (notificationsMap (snd (run e ns st))) k)) \<le> batchAmount e - 1"
  using assms
proof (induction ns arbitrary: st)
  case Nil
  then show ?case by simp
next
  case (Cons n ns)
  from Cons.prems have a: "\<not> flushFails e n st" and b: "flushesSucceed e ns (snd (dispatch e n st))"
    by simp_all
  from Cons.IH [OF step_keeps_bound [OF Cons.prems(1) a] b]
  show ?case by (simp only: run_Cons)
qed

lemma flush_empties:
  assumes "DeliveryRoute n = Email" and "NotificationType n = Batch"
    and "sent (snd (dispatch e n st)) \<noteq> sent st" and "fst (dispatch e n st) = received"
  shows "notificationsMap (snd (dispatch e n st)) (EventName n) = Some []"
proof (cases "Unmarshal (Metadata n)")
  case None
  with assms(1,3) dispatch_bad_metadata [OF assms(1) None, of e st] show ?thesis by simp
next
  case (Some em)
  show ?thesis
  proof (cases "int (length (index (notificationsMap st) (EventName n))) + 1 = batchAmount e")
    case True
    from dispatch_flush [OF assms(1,2) Some True refl] assms(4) show ?thesis
      by (auto simp add: received_def StatusOK_def StatusInternalServerError_def split: if_splits)
  next
    case False
    from dispatch_accumulate [OF assms(1,2) Some False] assms(3) show ?thesis by simp
  qed
qed

lemma fresh_start:
  assumes "DeliveryRoute n = Email" and "NotificationType n = Batch"
    and "Unmarshal (Metadata n) = Some em"
    and "index (notificationsMap st) (EventName n) = []" and "batchAmount e \<noteq> 1"
  shows "dispatch e n st = (received, st\<lparr>notificationsMap := (notificationsMap st)(EventName n \<mapsto> [em])\<rparr>)"
proof -
  have "int (length (index (notificationsMap st) (EventName n))) + 1 \<noteq> batchAmount e"
    using assms(4,5) by simp
  from dispatch_accumulate [OF assms(1,2,3) this] assms(4) show ?thesis by simp
qed

text \<open>
  Claim C3, as amended. From a state where the queue of \<open>k\<close> holds at most
  \<^verbatim>\<open>batchAmount\<close> - 1 elements (the state before the first request is one when
  \<^verbatim>\<open>batchAmount\<close> is at least 1), every sequence of requests in which no flush send fails
  ends in such a state. A batch notification that is answered with 200 after a call of the
  sender (a flush that succeeded) leaves the queue of its event empty. On an empty queue and
  with \<^verbatim>\<open>batchAmount\<close> other than 1, a batch notification is answered with 200 without a call
  of the sender and leaves a queue of one element, itself.
\<close>

theorem queue_below_threshold_while_flushes_succeed:
  "(int (length (index (notificationsMap st) k)) \<le> batchAmount e - 1 \<and> flushesSucceed e ns st
      \<longrightarrow> int (length (index (notificationsMap (snd (run e ns st))) k)) \<le> batchAmount e - 1) \<and>
   (DeliveryRoute n = Email \<and> NotificationType n = Batch \<and>
    sent (snd (dispatch e n st)) \<noteq> sent st \<and> fst (dispatch e n st) = received
      \<longrightarrow> notificationsMap (snd (dispatch e n st)) (EventName n) = Some []) \<and>
   (DeliveryRoute n = Email \<and> NotificationType n = Batch \<and> Unmarshal (Metadata n) = Some em \<and>
    index (notificationsMap st) (EventName n) = [] \<and> batchAmount e \<noteq> 1
      \<longrightarrow> fst (dispatch e n st) = received \<and> sent (snd (dispatch e n st)) = sent st \<and>
          notificationsMap (snd (dispatch e n st)) (EventName n) = Some [em])"
  using run_keeps_bound [of st k e ns] flush_empties [of n e st] fresh_start [of n em st e]
  by simp

theorem queue_below_threshold_while_flushes_succeed_witness:
  "int (length (index (notificationsMap (snd (run (config 2) [promoHi, promoBye, promoHi] initial))) ''promo'')) \<le> 1 \<and>
   notificationsMap (snd (dispatch (config 2) promoBye (snd (run (config 2) [promoHi] initial)))) ''promo'' = Some [] \<and>
   notificationsMap (snd (dispatch (config 2) promoHi (snd (run (config 2) [promoHi, promoBye] initial)))) ''promo'' =
     Some [\<lparr>EmailAddress = ''a@x.com'', EmailBody = ''hi''\<rparr>]"
proof -
  let ?e = "config 2"
  let ?s1 = "snd (run ?e [promoHi] initial)" and ?s2 = "snd (run ?e [promoHi, promoBye] initial)"
  have a1: "int (length (index (notificationsMap initial) ''promo'')) \<le> batchAmount ?e - 1"
    by (simp add: fixture_defs handler_defs)
  have a2: "flushesSucceed ?e [promoHi, promoBye, promoHi] initial"
    by (simp add: flushFails_def fixture_defs handler_defs constant_defs)
  have b: "DeliveryRoute promoBye = Email \<and> NotificationType promoBye = Batch \<and>
      sent (snd (dispatch ?e promoBye ?s1)) \<noteq> sent ?s1 \<and> fst (dispatch ?e promoBye ?s1) = received"
    by (simp add: fixture_defs handler_defs constant_defs)
  have c: "DeliveryRoute promoHi = Email \<and> NotificationType promoHi = Batch \<and>
      Unmarshal (Metadata promoHi) = Some \<lparr>EmailAddress = ''a@x.com'', EmailBody = ''hi''\<rparr> \<and>
      index (notificationsMap ?s2) (EventName promoHi) = [] \<and> batchAmount ?e \<noteq> 1"
    by (simp add: fixture_defs handler_defs constant_defs)
  from queue_below_threshold_while_flushes_succeed [of initial "''promo''" ?e "[promoHi, promoBye, promoHi]" promoBye]
    a1 a2
  have 1: "int (length (index (notificationsMap (snd (run ?e [promoHi, promoBye, promoHi] initial))) ''promo'')) \<le> 1"
    by (simp add: config_def)
  from queue_below_threshold_while_flushes_succeed [of ?s1 "''promo''" ?e "[]" promoBye] b
  have 2: "notificationsMap (snd (dispatch ?e promoBye ?s1)) ''promo'' = Some []"
    by (simp add: promoBye_def promo_def)
  from queue_below_threshold_while_flushes_succeed
    [of ?s2 "''promo''" ?e "[]" promoHi "\<lparr>EmailAddress = ''a@x.com'', EmailBody = ''hi''\<rparr>"] c
  have 3: "notificationsMap (snd (dispatch ?e promoHi ?s2)) ''promo'' =
      Some [\<lparr>EmailAddress = ''a@x.com'', EmailBody = ''hi''\<rparr>]"
    by (simp add: promoHi_def promo_def)
  from 1 2 3 show ?thesis by blast
qed

text \<open>
  Claim C3 as stated fails: with \<^verbatim>\<open>batchAmount\<close> 2 and a sender that returns an error, three
  batch notifications of one event leave more than one element in its queue.
\<close>

theorem queue_bound_counterexample:
  "\<not> int (length (index (notificationsMap (snd (run (unreliable 2) [promoHi, promoBye, promoHi] initial))) ''promo''))
      \<le> batchAmount (unreliable 2) - 1"
  by (simp add: fixture_defs handler_defs constant_defs)

lemma run_never_flushes:
  assumes "batchAmount e \<le> 0"
    and "\<forall>n\<in>set ns. DeliveryRoute n = Email \<and> NotificationType n = Batch \<and>
           Unmarshal (Metadata n) \<noteq> None"
  shows "fst (run e ns st) = replicate (length ns) received \<and>
    sent (snd (run e ns st)) = sent st \<and>
    index (notificationsMap (snd (run e ns st))) k =
      index (notificationsMap st) k @
      map (\<lambda>n. the (Unmarshal (Metadata n))) (filter (\<lambda>n. EventName n = k) ns)"
  using assms(2)
proof (induction ns arbitrary: st)
  case Nil
  then show ?case by simp
next
  case (Cons n ns)
  then obtain em where n: "DeliveryRoute n = Email" "NotificationType n = Batch"
    "Unmarshal (Metadata n) = Some em" by auto
  have "int (length (index (notificationsMap st) (EventName n))) + 1 \<noteq> batchAmount e"
    using assms(1) by simp
  note step = dispatch_accumulate [OF n this]
  from Cons.prems have rest: "\<forall>n\<in>set ns. DeliveryRoute n = Email \<and> NotificationType n = Batch \<and>
           Unmarshal (Metadata n) \<noteq> None" by simp
  let ?st1 = "snd (dispatch e n st)"
  have q1: "index (notificationsMap ?st1) k =
      (if k = EventName n then index (notificationsMap st) k @ [em]
       else index (notificationsMap st) k)"
    using step by (simp add: index_upd)
  have s1: "sent ?st1 = sent st" and r1: "fst (dispatch e n st) = received"
    using step by simp_all
  from Cons.IH [OF rest, of ?st1] q1 s1 r1 n(3)
  show ?case by (simp add: run_Cons del: run.simps)
qed

text \<open>
  Claim C9. With \<^verbatim>\<open>batchAmount\<close> zero or negative, a sequence of notifications of route
  email and type batch with metadata that decode is answered with 200 throughout, the sender
  is never called, and the queue of every event \<open>k\<close> grows by the notifications of \<open>k\<close>, in
  order: its length grows by their number.
\<close>

theorem nonpositive_threshold_never_flushes:
  assumes "batchAmount e \<le> 0"
    and "\<forall>n\<in>set ns. DeliveryRoute n = Email \<and> NotificationType n = Batch \<and>
           Unmarshal (Metadata n) \<noteq> None"
  shows "fst (run e ns st) = replicate (length ns) received \<and>
    sent (snd (run e ns st)) = sent st \<and>
    index (notificationsMap (snd (run e ns st))) k =
      index (notificationsMap st) k @
      map (\<lambda>n. the (Unmarshal (Metadata n))) (filter (\<lambda>n. EventName n = k) ns) \<and>
    length (index (notificationsMap (snd (run e ns st))) k) =
      length (index (notificationsMap st) k) + length (filter (\<lambda>n. EventName n = k) ns)"
  using run_never_flushes [OF assms, of st k] by simp

theorem nonpositive_threshold_never_flushes_witness:
  "fst (run (config 0) [promoHi, promoBye, promoHi] initial) = [received, received, received] \<and>
   sent (snd (run (config 0) [promoHi, promoBye, promoHi] initial)) = [] \<and>
   length (index (notificationsMap (snd (run (config 0) [promoHi, promoBye, promoHi] initial))) ''promo'') = 3"
proof -
  have h1: "batchAmount (config 0) \<le> 0" by (simp add: config_def)
  have h2: "\<forall>n\<in>set [promoHi, promoBye, promoHi]. DeliveryRoute n = Email \<and> NotificationType n = Batch \<and>
      Unmarshal (Metadata n) \<noteq> None"
    by (simp add: fixture_defs handler_defs)
  show ?thesis
    using nonpositive_threshold_never_flushes [OF h1 h2, of initial "''promo''"]
    by (simp add: fixture_defs index_def)
qed

section \<open>Routing and decoding\<close>

text \<open>
  Claim C4 at a notification of route email with the type \<^verbatim>\<open>weekly\<close> and metadata of
  the email shape: the inner switch has no default, so the handler answers 200
  "Notification received" and changes nothing, where the claim has a rejection with
  status 400.
\<close>

theorem unknown_type_is_accepted:
  "dispatch (config 2) weeklyHi initial = (JSON 200 ''message'' ''Notification received'', initial)"
  by (simp add: fixture_defs handler_defs constant_defs)

text \<open>
  Claim C5, as amended. A notification of route system whose metadata has the email shape
  is not decoded: \<^verbatim>\<open>Insert\<close> is called exactly once, with the notification, and the answer
  is 200 when it succeeds and 500 when it fails, never 400.
\<close>

theorem system_route_never_decodes:
  assumes "DeliveryRoute n = System" and "Metadata n = emailShape a b"
  shows "inserted (snd (dispatch e n st)) = inserted st @ [n] \<and>
    fst (dispatch e n st) =
      (if notificationRepo e (inserted st) n = None then received
       else JSON StatusInternalServerError ''error'' ''Failed to insert notification'') \<and>
    status (fst (dispatch e n st)) \<noteq> StatusBadRequest"
  using dispatch_system [OF assms(1), of e st]
  by (simp add: received_def StatusOK_def StatusBadRequest_def StatusInternalServerError_def)

theorem system_route_never_decodes_witness:
  "inserted (snd (dispatch (config 2) systemHi initial)) = [systemHi] \<and>
   fst (dispatch (config 2) systemHi initial) = received"
proof -
  have h1: "DeliveryRoute systemHi = System" by (simp add: systemHi_def promo_def)
  have h2: "Metadata systemHi = emailShape ''a@x.com'' ''hi''" by (simp add: systemHi_def promo_def)
  show ?thesis
    using system_route_never_decodes [OF h1 h2, of "config 2" initial]
    by (simp add: initial_def config_def NotificationRepositoryImpl_def)
qed

text \<open>
  Claim C5 as stated fails: a notification of route system with metadata of the email
  shape is answered with 200 and is inserted.
\<close>

theorem email_shape_on_system_route_counterexample:
  "status (fst (dispatch (config 2) systemHi initial)) = 200 \<and>
   inserted (snd (dispatch (config 2) systemHi initial)) = [systemHi]"
  by (simp add: fixture_defs handler_defs constant_defs)

lemma object_flag:
  "snd (object ms (em, bad)) \<longleftrightarrow>
     bad \<or> (\<exists>m\<in>set ms. lookupField (fst m) \<noteq> None \<and> snd m \<noteq> JNull \<and> (\<forall>s. snd m \<noteq> JString s))"
proof (induction ms arbitrary: em bad)
  case Nil
  then show ?case by simp
next
  case (Cons m ms)
  obtain k v where m: "m = (k, v)" by (cases m)
  show ?case
  proof (cases "lookupField k")
    case None
    with m Cons.IH [of em bad] show ?thesis by simp
  next
    case (Some f)
    with m Cons.IH show ?thesis by (cases v) auto
  qed
qed

lemma object_keeps_address:
  "\<forall>m\<in>set ms. lookupField (fst m) \<noteq> Some FEmailAddress \<Longrightarrow>
   EmailAddress (fst (object ms (em, bad))) = EmailAddress em"
proof (induction ms arbitrary: em bad)
  case Nil
  then show ?case by simp
next
  case (Cons m ms)
  obtain k v where m: "m = (k, v)" by (cases m)
  from Cons.prems have rest: "\<forall>m\<in>set ms. lookupField (fst m) \<noteq> Some FEmailAddress" by simp
  from Cons.prems m have here: "lookupField k \<noteq> Some FEmailAddress" by simp
  show ?case
  proof (cases "lookupField k")
    case None
    with m Cons.IH [OF rest] show ?thesis by simp
  next
    case (Some f)
    with here have f: "f = FEmailBody" by (cases f) simp_all
    with Some m Cons.IH [OF rest] show ?thesis
      by (cases v) (simp_all add: setField_def)
  qed
qed

lemma object_keeps_body:
  "\<forall>m\<in>set ms. lookupField (fst m) \<noteq> Some FEmailBody \<Longrightarrow>
   EmailBody (fst (object ms (em, bad))) = EmailBody em"
proof (induction ms arbitrary: em bad)
  case Nil
  then show ?case by simp
next
  case (Cons m ms)
  obtain k v where m: "m = (k, v)" by (cases m)
  from Cons.prems have rest: "\<forall>m\<in>set ms. lookupField (fst m) \<noteq> Some FEmailBody" by simp
  from Cons.prems m have here: "lookupField k \<noteq> Some FEmailBody" by simp
  show ?case
  proof (cases "lookupField k")
    case None
    with m Cons.IH [OF rest] show ?thesis by simp
  next
    case (Some f)
    with here have f: "f = FEmailAddress" by (cases f) simp_all
    with Some m Cons.IH [OF rest] show ?thesis
      by (cases v) (simp_all add: setField_def)
  qed
qed

lemma Unmarshal_object:
  "Unmarshal (Some (JObject ms)) =
     (if snd (object ms (\<lparr>EmailAddress = [], EmailBody = []\<rparr>, False)) then None
      else Some (fst (object ms (\<lparr>EmailAddress = [], EmailBody = []\<rparr>, False))))"
  by (simp add: Unmarshal_def split: prod.split)

lemma Unmarshal_fails_iff:
  "Unmarshal raw = None \<longleftrightarrow>
     raw = None \<or>
     (\<exists>v. raw = Some v \<and> v \<noteq> JNull \<and> (\<forall>ms. v \<noteq> JObject ms)) \<or>
     (\<exists>ms. raw = Some (JObject ms) \<and>
        (\<exists>m\<in>set ms. lookupField (fst m) \<noteq> None \<and> snd m \<noteq> JNull \<and> (\<forall>s. snd m \<noteq> JString s)))"
proof (cases raw)
  case None
  then show ?thesis by (simp add: Unmarshal_def)
next
  case (Some v)
  show ?thesis
  proof (cases v)
    case (JObject ms)
    with Some show ?thesis by (simp add: Unmarshal_object object_flag)
  qed (use Some in \<open>simp_all add: Unmarshal_def\<close>)
qed

lemma dispatch_decoded_status:
  assumes "DeliveryRoute n = Email" and "Unmarshal (Metadata n) = Some em"
  shows "status (fst (dispatch e n st)) \<noteq> StatusBadRequest"
  using assms
  by (simp add: dispatch_def SendEmail_def Let_def received_def StatusOK_def StatusBadRequest_def
      StatusInternalServerError_def split: option.split)

text \<open>
  Claim C6, as amended. Decoding fails exactly for no payload, for a JSON value that is
  neither an object nor \<^verbatim>\<open>null\<close>, and for an object with a member that matches
  \<^verbatim>\<open>emailAddress\<close> or \<^verbatim>\<open>emailBody\<close> and is neither a string nor \<^verbatim>\<open>null\<close>. A
  notification of route email with such metadata is answered with 400
  "Invalid email metadata" and the state is unchanged: no call of the sender, no change of
  a queue. An absent member is not a failure of decoding: an object without such a member
  decodes, a field that no member matches is the empty string, and the answer is not 400.
\<close>

theorem undecodable_email_metadata_is_rejected:
  "(Unmarshal (Metadata n) = None \<longleftrightarrow>
      Metadata n = None \<or>
      (\<exists>v. Metadata n = Some v \<and> v \<noteq> JNull \<and> (\<forall>ms. v \<noteq> JObject ms)) \<or>
      (\<exists>ms. Metadata n = Some (JObject ms) \<and>
         (\<exists>m\<in>set ms. lookupField (fst m) \<noteq> None \<and> snd m \<noteq> JNull \<and>
            (\<forall>s. snd m \<noteq> JString s)))) \<and>
   (DeliveryRoute n = Email \<and>
      (Metadata n = None \<or>
       (\<exists>v. Metadata n = Some v \<and> v \<noteq> JNull \<and> (\<forall>ms. v \<noteq> JObject ms)) \<or>
       (\<exists>ms. Metadata n = Some (JObject ms) \<and>
          (\<exists>m\<in>set ms. lookupField (fst m) \<noteq> None \<and> snd m \<noteq> JNull \<and>
             (\<forall>s. snd m \<noteq> JString s)))) \<longrightarrow>
      dispatch e n st = (JSON StatusBadRequest ''error'' ''Invalid email metadata'', st)) \<and>
   (DeliveryRoute n = Email \<and> Metadata n = Some (JObject ms) \<and>
      (\<forall>m\<in>set ms. lookupField (fst m) = None \<or> snd m = JNull \<or> (\<exists>s. snd m = JString s)) \<longrightarrow>
      (\<exists>em. Unmarshal (Metadata n) = Some em \<and>
         ((\<forall>m\<in>set ms. lookupField (fst m) \<noteq> Some FEmailAddress) \<longrightarrow> EmailAddress em = []) \<and>
         ((\<forall>m\<in>set ms. lookupField (fst m) \<noteq> Some FEmailBody) \<longrightarrow> EmailBody em = [])) \<and>
      status (fst (dispatch e n st)) \<noteq> StatusBadRequest)"
proof (intro conjI impI)
  show "Unmarshal (Metadata n) = None \<longleftrightarrow>
      Metadata n = None \<or>
      (\<exists>v. Metadata n = Some v \<and> v \<noteq> JNull \<and> (\<forall>ms. v \<noteq> JObject ms)) \<or>
      (\<exists>ms. Metadata n = Some (JObject ms) \<and>
         (\<exists>m\<in>set ms. lookupField (fst m) \<noteq> None \<and> snd m \<noteq> JNull \<and>
            (\<forall>s. snd m \<noteq> JString s)))"
    by (rule Unmarshal_fails_iff)
next
  assume a: "DeliveryRoute n = Email \<and>
      (Metadata n = None \<or>
       (\<exists>v. Metadata n = Some v \<and> v \<noteq> JNull \<and> (\<forall>ms. v \<noteq> JObject ms)) \<or>
       (\<exists>ms. Metadata n = Some (JObject ms) \<and>
          (\<exists>m\<in>set ms. lookupField (fst m) \<noteq> None \<and> snd m \<noteq> JNull \<and>
             (\<forall>s. snd m \<noteq> JString s))))"
  then have "Unmarshal (Metadata n) = None" using Unmarshal_fails_iff [of "Metadata n"] by blast
  with a show "dispatch e n st = (JSON StatusBadRequest ''error'' ''Invalid email metadata'', st)"
    using dispatch_bad_metadata [of n e st] by blast
next
  assume a: "DeliveryRoute n = Email \<and> Metadata n = Some (JObject ms) \<and>
      (\<forall>m\<in>set ms. lookupField (fst m) = None \<or> snd m = JNull \<or> (\<exists>s. snd m = JString s))"
  let ?r = "object ms (\<lparr>EmailAddress = [], EmailBody = []\<rparr>, False)"
  from a have "\<not> snd ?r" by (auto simp add: object_flag)
  with a have dec: "Unmarshal (Metadata n) = Some (fst ?r)" by (simp add: Unmarshal_object)
  have "(\<forall>m\<in>set ms. lookupField (fst m) \<noteq> Some FEmailAddress) \<longrightarrow> EmailAddress (fst ?r) = []"
    using object_keeps_address [of ms "\<lparr>EmailAddress = [], EmailBody = []\<rparr>" False] by simp
  moreover
  have "(\<forall>m\<in>set ms. lookupField (fst m) \<noteq> Some FEmailBody) \<longrightarrow> EmailBody (fst ?r) = []"
    using object_keeps_body [of ms "\<lparr>EmailAddress = [], EmailBody = []\<rparr>" False] by simp
  ultimately
  show "\<exists>em. Unmarshal (Metadata n) = Some em \<and>
         ((\<forall>m\<in>set ms. lookupField (fst m) \<noteq> Some FEmailAddress) \<longrightarrow> EmailAddress em = []) \<and>
         ((\<forall>m\<in>set ms. lookupField (fst m) \<noteq> Some FEmailBody) \<longrightarrow> EmailBody em = [])"
    using dec by blast
  from a dec show "status (fst (dispatch e n st)) \<noteq> StatusBadRequest"
    using dispatch_decoded_status [of n "fst ?r" e st] by blast
qed


theorem undecodable_email_metadata_is_rejected_witness:
  "dispatch (unreliable 1) (promo Email Batch None) initial =
     (JSON 400 ''error'' ''Invalid email metadata'', initial) \<and>
   dispatch (unreliable 1) (promo Email Batch (Some (JArray []))) initial =
     (JSON 400 ''error'' ''Invalid email metadata'', initial) \<and>
   dispatch (config 2) (promo Email Instant (Some (JObject [(''emailBody'', JNumber ''5'')]))) initial =
     (JSON 400 ''error'' ''Invalid email metadata'', initial) \<and>
   (\<exists>em. Unmarshal (Metadata noBodyHi) = Some em \<and> EmailBody em = []) \<and>
   status (fst (dispatch (config 2) noBodyHi initial)) \<noteq> 400"
proof -
  let ?n1 = "promo Email Batch None"
  let ?n2 = "promo Email Batch (Some (JArray []))"
  let ?n3 = "promo Email Instant (Some (JObject [(''emailBody'', JNumber ''5'')]))"
  let ?ms = "[(''emailAddress'', JString ''a@x.com'')]"
  have h1: "DeliveryRoute ?n1 = Email \<and> Metadata ?n1 = None" by (simp add: promo_def)
  have h2: "DeliveryRoute ?n2 = Email \<and>
      (\<exists>v. Metadata ?n2 = Some v \<and> v \<noteq> JNull \<and> (\<forall>ms. v \<noteq> JObject ms))"
    by (simp add: promo_def)
  have h3: "DeliveryRoute ?n3 = Email \<and>
      (\<exists>ms. Metadata ?n3 = Some (JObject ms) \<and>
         (\<exists>m\<in>set ms. lookupField (fst m) \<noteq> None \<and> snd m \<noteq> JNull \<and>
            (\<forall>s. snd m \<noteq> JString s)))"
    by (simp add: promo_def lookupField_def)
  have h4: "DeliveryRoute noBodyHi = Email \<and> Metadata noBodyHi = Some (JObject ?ms) \<and>
      (\<forall>m\<in>set ?ms. lookupField (fst m) = None \<or> snd m = JNull \<or> (\<exists>s. snd m = JString s))"
    by (simp add: noBodyHi_def promo_def)
  have h5: "\<forall>m\<in>set ?ms. lookupField (fst m) \<noteq> Some FEmailBody"
    by (simp add: lookupField_def)
  from undecodable_email_metadata_is_rejected [of ?n1 "unreliable 1" initial] h1
  have 1: "dispatch (unreliable 1) ?n1 initial =
      (JSON 400 ''error'' ''Invalid email metadata'', initial)"
    by (simp add: StatusBadRequest_def)
  from undecodable_email_metadata_is_rejected [of ?n2 "unreliable 1" initial] h2
  have 2: "dispatch (unreliable 1) ?n2 initial =
      (JSON 400 ''error'' ''Invalid email metadata'', initial)"
    by (simp add: StatusBadRequest_def)
  from undecodable_email_metadata_is_rejected [of ?n3 "config 2" initial] h3
  have 3: "dispatch (config 2) ?n3 initial =
      (JSON 400 ''error'' ''Invalid email metadata'', initial)"
    by (simp add: StatusBadRequest_def)
  from undecodable_email_metadata_is_rejected [of noBodyHi "config 2" initial ?ms] h4 h5
  have 4: "(\<exists>em. Unmarshal (Metadata noBodyHi) = Some em \<and> EmailBody em = []) \<and>
      status (fst (dispatch (config 2) noBodyHi initial)) \<noteq> 400"
    by (auto simp add: StatusBadRequest_def)
  from 1 2 3 4 show ?thesis by blast
qed

text \<open>
  Claim C6 as stated fails: an instant notification whose metadata lack
  \<^verbatim>\<open>emailBody\<close> is answered with 200, and the sender is called with the empty body.
\<close>

theorem missing_field_counterexample:
  "dispatch (config 2) noBodyHi initial =
     (JSON 200 ''message'' ''Notification received'', initial\<lparr>sent := [(''a@x.com'', [])]\<rparr>)"
  by (simp add: fixture_defs handler_defs constant_defs)

text \<open>
  Claim C7. A notification of route email and type instant whose metadata decode calls the
  sender exactly once, with the decoded address and body; the answer is 200 exactly when
  the sender succeeds and 500 "Failed to send email" exactly when it returns an error. The
  map and the store are left alone.
\<close>

theorem instant_email_sends_once:
  assumes "DeliveryRoute n = Email" and "NotificationType n = Instant"
    and "Unmarshal (Metadata n) = Some em"
  shows "sent (snd (dispatch e n st)) = sent st @ [(EmailAddress em, EmailBody em)] \<and>
    (fst (dispatch e n st) = received \<longleftrightarrow>
       emailService e (sent st) (EmailAddress em) (EmailBody em) = None) \<and>
    (fst (dispatch e n st) = JSON StatusInternalServerError ''error'' ''Failed to send email'' \<longleftrightarrow>
       emailService e (sent st) (EmailAddress em) (EmailBody em) \<noteq> None) \<and>
    notificationsMap (snd (dispatch e n st)) = notificationsMap st \<and>
    inserted (snd (dispatch e n st)) = inserted st"
  using dispatch_instant [OF assms, of e st]
  by (simp add: received_def StatusOK_def StatusInternalServerError_def)

theorem instant_email_sends_once_witness:
  "sent (snd (dispatch (config 2) instantHi initial)) = [(''a@x.com'', ''hi'')] \<and>
   fst (dispatch (config 2) instantHi initial) = received \<and>
   fst (dispatch (unreliable 2) instantHi initial) = JSON 500 ''error'' ''Failed to send email''"
proof -
  have h1: "DeliveryRoute instantHi = Email" by (simp add: instantHi_def promo_def)
  have h2: "NotificationType instantHi = Instant" by (simp add: instantHi_def promo_def)
  have h3: "Unmarshal (Metadata instantHi) = Some \<lparr>EmailAddress = ''a@x.com'', EmailBody = ''hi''\<rparr>"
    by (simp add: fixture_defs handler_defs)
  show ?thesis
    using instant_email_sends_once [OF h1 h2 h3, of "config 2" initial]
      instant_email_sends_once [OF h1 h2 h3, of "unreliable 2" initial]
    by (simp add: fixture_defs StatusInternalServerError_def)
qed

text \<open>
  Claim C8. A notification of route system, whatever its type and metadata, calls
  \<^verbatim>\<open>Insert\<close> exactly once with the whole notification; the answer is 200 exactly when
  \<^verbatim>\<open>Insert\<close> succeeds and 500 "Failed to insert notification" exactly when it returns
  an error. The sender is not called and the map is unchanged.
\<close>

theorem system_notification_is_inserted:
  assumes "DeliveryRoute n = System"
  shows "inserted (snd (dispatch e n st)) = inserted st @ [n] \<and>
    (fst (dispatch e n st) = received \<longleftrightarrow> notificationRepo e (inserted st) n = None) \<and>
    (fst (dispatch e n st) =
       JSON StatusInternalServerError ''error'' ''Failed to insert notification'' \<longleftrightarrow>
       notificationRepo e (inserted st) n \<noteq> None) \<and>
    sent (snd (dispatch e n st)) = sent st \<and>
    notificationsMap (snd (dispatch e n st)) = notificationsMap st"
  using dispatch_system [OF assms, of e st]
  by (simp add: received_def StatusOK_def StatusInternalServerError_def)

theorem system_notification_is_inserted_witness:
  "inserted (snd (dispatch (config 2) (promo System Batch None) initial)) =
     [promo System Batch None] \<and>
   fst (dispatch (config 2) (promo System Batch None) initial) = received"
proof -
  have h: "DeliveryRoute (promo System Batch None) = System" by (simp add: promo_def)
  show ?thesis
    using system_notification_is_inserted [OF h, of "config 2" initial]
    by (simp add: initial_def config_def NotificationRepositoryImpl_def)
qed

section \<open>Frame\<close>

text \<open>
  Claim C10, as amended. A request leaves the queue of every event other than its own
  unchanged, and a request that is not a batch email with metadata that decode (instant
  email, system, every request answered with 400) leaves the whole map unchanged.
\<close>

theorem dispatch_touches_own_queue_only:
  "(k \<noteq> EventName n \<longrightarrow> notificationsMap (snd (dispatch e n st)) k = notificationsMap st k) \<and>
   (\<not> (DeliveryRoute n = Email \<and> NotificationType n = Batch \<and> Unmarshal (Metadata n) \<noteq> None)
      \<longrightarrow> notificationsMap (snd (dispatch e n st)) = notificationsMap st)"
  using dispatch_map_other_key [of k n e st] dispatch_map_unchanged [of n e st] by blast

theorem dispatch_touches_own_queue_only_witness:
  "notificationsMap (snd (dispatch (config 1) promoHi initial)) ''other'' = None \<and>
   notificationsMap (snd (dispatch (unreliable 1) instantHi initial)) = Map.empty"
proof -
  have h1: "''other'' \<noteq> EventName promoHi" by (simp add: promoHi_def promo_def)
  have h2: "\<not> (DeliveryRoute instantHi = Email \<and> NotificationType instantHi = Batch \<and>
      Unmarshal (Metadata instantHi) \<noteq> None)"
    by (simp add: instantHi_def promo_def Instant_def Batch_def)
  from dispatch_touches_own_queue_only [of "''other''" promoHi "config 1" initial] h1
    dispatch_touches_own_queue_only [of "''other''" instantHi "unreliable 1" initial] h2
  show ?thesis by (simp add: initial_def)
qed

text \<open>
  Claim C10 as stated fails for a rejected request: a batch notification whose flush send
  fails is answered with 500 and has changed the map.
\<close>

theorem rejected_flush_changes_map_counterexample:
  "status (fst (dispatch (unreliable 1) promoHi initial)) = 500 \<and>
   notificationsMap (snd (dispatch (unreliable 1) promoHi initial)) \<noteq> notificationsMap initial"
proof -
  have "notificationsMap (snd (dispatch (unreliable 1) promoHi initial)) ''promo'' \<noteq>
      notificationsMap initial ''promo''"
    by (simp add: fixture_defs handler_defs constant_defs)
  then have "notificationsMap (snd (dispatch (unreliable 1) promoHi initial)) \<noteq> notificationsMap initial"
    by metis
  moreover have "status (fst (dispatch (unreliable 1) promoHi initial)) = 500"
    by (simp add: fixture_defs handler_defs constant_defs)
  ultimately show ?thesis by simp
qed

end
